theory Spec2Isabelle
  imports Main
begin

section \<open>JavaScript values, errors and dates\<close>

text \<open>
  The subscription backend of \<^verbatim>\<open>src/api-routes.js\<close>: Express handlers that call the payment
  provider (Stripe) and write subscription state into one Firestore document per family.
  The handlers are modelled as functions on an explicit world (the document store and the
  trace of calls made to the provider and to the store); every \<^verbatim>\<open>throw\<close> is a value of
  \<open>js_error + 'a\<close>.
\<close>

datatype js_error =
    TypeError string
  | RangeError string
  | StripeError string
  | FirestoreError string

fun message :: "js_error \<Rightarrow> string" where
  "message (TypeError m) = m"
| "message (RangeError m) = m"
| "message (StripeError m) = m"
| "message (FirestoreError m) = m"

text \<open>
  The values the handlers put into object literals and JSON bodies: a string, \<^verbatim>\<open>null\<close>,
  \<^verbatim>\<open>undefined\<close> (a property read from an object that lacks it), and the two kinds of value
  that reading a property of an object literal can find on its prototype: a function
  (\<open>JFunction\<close>, with the property's name) and \<^verbatim>\<open>Object.prototype\<close> itself.
\<close>

datatype jsval = JUndefined | JNull | JString string | JFunction string | JObjectPrototype

text \<open>
  The properties every object literal inherits from \<^verbatim>\<open>Object.prototype\<close>: eleven methods and
  the accessor \<^verbatim>\<open>__proto__\<close>.
\<close>

definition Object_prototype :: "string list" where
  "Object_prototype =
     [''constructor'', ''__defineGetter__'', ''__defineSetter__'', ''hasOwnProperty'',
      ''__lookupGetter__'', ''__lookupSetter__'', ''isPrototypeOf'', ''propertyIsEnumerable'',
      ''toString'', ''valueOf'', ''toLocaleString'', ''__proto__'']"

text \<open>
  \<^verbatim>\<open>obj[k]\<close> for an object literal with the given own string-valued properties: an own
  property first, then the prototype's.
\<close>

definition property :: "(string \<times> string) list \<Rightarrow> string \<Rightarrow> jsval" where
  "property obj k =
     (case map_of obj k of
        Some v \<Rightarrow> JString v
      | None \<Rightarrow>
          if k = ''__proto__'' then JObjectPrototype
          else if k \<in> set Object_prototype then JFunction k
          else JUndefined)"

text \<open>\<^verbatim>\<open>a || b\<close>: \<open>a\<close> when it is truthy, else \<open>b\<close>.\<close>

fun truthy :: "jsval \<Rightarrow> bool" where
  "truthy JUndefined = False"
| "truthy JNull = False"
| "truthy (JString s) = (s \<noteq> [])"
| "truthy (JFunction f) = True"
| "truthy JObjectPrototype = True"

definition or_else :: "jsval \<Rightarrow> jsval \<Rightarrow> jsval" where
  "or_else a b = (if truthy a then a else b)"

type_synonym object = "(string \<times> jsval) list"

text \<open>A request or metadata field that may be absent: \<open>None\<close> is \<^verbatim>\<open>undefined\<close>.\<close>

fun of_field :: "string option \<Rightarrow> jsval" where
  "of_field None = JUndefined"
| "of_field (Some s) = JString s"

text \<open>\<^verbatim>\<open>!x\<close> on an optional string: \<^verbatim>\<open>undefined\<close> and the empty string are falsy.\<close>

fun falsy :: "string option \<Rightarrow> bool" where
  "falsy None = True"
| "falsy (Some s) = (s = [])"

subsection \<open>\<^verbatim>\<open>Date.prototype.toISOString\<close>\<close>

text \<open>
  \<^verbatim>\<open>new Date(t).toISOString()\<close> for an integral time value \<open>t\<close> in milliseconds. A time value
  beyond 8.64e15 ms in magnitude makes an invalid Date, and \<^verbatim>\<open>toISOString\<close> throws a
  RangeError. Years outside 0..9999 are printed with a sign and six digits.
\<close>

definition digit_char :: "nat \<Rightarrow> char" where
  "digit_char d = ''0123456789'' ! (d mod 10)"

fun pad :: "nat \<Rightarrow> nat \<Rightarrow> string" where
  "pad 0 n = []"
| "pad (Suc w) n = pad w (n div 10) @ [digit_char (n mod 10)]"

definition year_month_day :: "int \<Rightarrow> int \<times> int \<times> int" where
  "year_month_day days =
     (let z = days + 719468;
          era = z div 146097;
          doe = z mod 146097;
          yoe = (doe - doe div 1460 + doe div 36524 - doe div 146096) div 365;
          doy = doe - (365 * yoe + yoe div 4 - yoe div 100);
          mp = (5 * doy + 2) div 153;
          d = doy - (153 * mp + 2) div 5 + 1;
          m = (if mp < 10 then mp + 3 else mp - 9);
          y = yoe + era * 400 + (if m \<le> 2 then 1 else 0)
      in (y, m, d))"

definition year_string :: "int \<Rightarrow> string" where
  "year_string y =
     (if 0 \<le> y \<and> y \<le> 9999 then pad 4 (nat y)
      else (if y < 0 then ''-'' else ''+'') @ pad 6 (nat \<bar>y\<bar>))"

definition toISOString :: "int \<Rightarrow> js_error + string" where
  "toISOString t =
     (if \<bar>t\<bar> > 8640000000000000 then Inl (RangeError ''Invalid time value'')
      else
        let msInDay = t mod 86400000;
            (y, m, d) = year_month_day (t div 86400000)
        in Inr (year_string y @ ''-'' @ pad 2 (nat m) @ ''-'' @ pad 2 (nat d) @ ''T''
                @ pad 2 (nat (msInDay div 3600000)) @ '':''
                @ pad 2 (nat (msInDay div 60000 mod 60)) @ '':''
                @ pad 2 (nat (msInDay div 1000 mod 60)) @ ''.''
                @ pad 3 (nat (msInDay mod 1000)) @ ''Z''))"

section \<open>Provider objects\<close>

text \<open>
  The fields of Stripe's objects that the handlers read. \<open>None\<close> in an optional field is a
  property that is missing or \<^verbatim>\<open>null\<close>; a metadata key and the subscription's own
  \<^verbatim>\<open>current_period_end\<close> are missing (\<^verbatim>\<open>undefined\<close>) when they are \<open>None\<close>, the latter with the
  API versions that report period ends per item. Period ends are integral Unix timestamps
  in seconds.
\<close>

record item =
  item_current_period_end :: "int option"
  item_interval :: string

record metadata =
  md_userId :: "string option"
  md_plan :: "string option"

record subscription =
  sub_id :: string
  sub_status :: string
  sub_customer :: string
  sub_current_period_end :: "int option"
  sub_items :: "item list option"
  sub_metadata :: "metadata option"

record customer =
  cust_id :: string
  cust_email :: "string option"

section \<open>Period-end derivation\<close>

text \<open>
  The block that derives the period end occurs four times in the source with the same text
  (restore-subscription, lines 166-175; the webhook cases checkout.session.completed,
  lines 228-239, customer.subscription.updated, lines 279-290, and invoice.payment_failed,
  lines 320-331):
  \<^verbatim>\<open>
  let periodEnd = null;
  if (sub.items && sub.items.data && sub.items.data.length > 0) {
    const ends = sub.items.data.map(item => item.current_period_end).filter(Boolean);
    if (ends.length > 0) { periodEnd = Math.min(...ends); }
  }
  return periodEnd ? new Date(periodEnd * 1000).toISOString() : null;
  \<close>
\<close>

text \<open>\<^verbatim>\<open>Boolean(x)\<close> on an optional number: missing values and 0 are falsy.\<close>

fun Boolean :: "int option \<Rightarrow> bool" where
  "Boolean None = False"
| "Boolean (Some n) = (n \<noteq> 0)"

text \<open>\<^verbatim>\<open>Math.min(...ends)\<close>, called on a non-empty array only.\<close>

fun Math_min :: "int list \<Rightarrow> int" where
  "Math_min (x # xs) = fold min xs x"
| "Math_min [] = 0"

definition periodEnd :: "item list option \<Rightarrow> int option" where
  "periodEnd items =
     (case items of
        None \<Rightarrow> None
      | Some data \<Rightarrow>
          if length data > 0 then
            let ends = map the (filter Boolean (map item_current_period_end data))
            in if length ends > 0 then Some (Math_min ends) else None
          else None)"

definition subscriptionEndDate :: "item list option \<Rightarrow> js_error + jsval" where
  "subscriptionEndDate items =
     (case periodEnd items of
        None \<Rightarrow> Inr JNull
      | Some e \<Rightarrow>
          if e \<noteq> 0 then
            (case toISOString (e * 1000) of Inl err \<Rightarrow> Inl err | Inr s \<Rightarrow> Inr (JString s))
          else Inr JNull)"

section \<open>The document store\<close>

text \<open>
  Firestore holds one document per family in the collection \<^verbatim>\<open>families\<close>. The store is
  keyed by the path of a document below \<^verbatim>\<open>families\<close>, which for a document of the collection
  itself is its id, the user id. A document maps field names to values; the field
  \<^verbatim>\<open>subscriptionData\<close> holds a map.
\<close>

datatype fvalue = FNull | FString string | FMap "(string \<times> fvalue) list"

type_synonym document = "string \<rightharpoonup> fvalue"

type_synonym firestore = "string \<rightharpoonup> document"

text \<open>
  \<^verbatim>\<open>db.collection('families').doc(documentPath)\<close> (line 383). The client refuses an empty
  path and a path containing \<^verbatim>\<open>//\<close>, splits the path at \<^verbatim>\<open>/\<close> dropping empty segments, and
  throws unless \<^verbatim>\<open>families\<close> followed by the segments has an even number of components.
  The result is the document's path below \<^verbatim>\<open>families\<close>.
\<close>

fun has_double_slash :: "string \<Rightarrow> bool" where
  "has_double_slash (a # b # cs) =
     ((a = CHR ''/'' \<and> b = CHR ''/'') \<or> has_double_slash (b # cs))"
| "has_double_slash cs = False"

fun segments :: "string \<Rightarrow> string \<Rightarrow> string list" where
  "segments acc [] = (if acc = [] then [] else [acc])"
| "segments acc (c # cs) =
     (if c = CHR ''/'' then (if acc = [] then [] else [acc]) @ segments [] cs
      else segments (acc @ [c]) cs)"

fun join :: "string list \<Rightarrow> string" where
  "join [] = []"
| "join [s] = s"
| "join (s # t # ts) = s @ ''/'' @ join (t # ts)"

definition doc :: "string \<Rightarrow> js_error + string" where
  "doc documentPath =
     (if documentPath = [] then Inl (FirestoreError ''Path must be a non-empty string.'')
      else if has_double_slash documentPath
      then Inl (FirestoreError ''Paths must not contain //.'')
      else
        let path = segments [] documentPath
        in if even (length (''families'' # path)) then Inr (join path)
           else Inl (FirestoreError
                  ''Your path does not contain an even number of components.''))"

text \<open>
  Encoding a JavaScript object as a Firestore map. \<^verbatim>\<open>db = admin.firestore()\<close> is used with its
  default settings, under which a property whose value is \<^verbatim>\<open>undefined\<close> is refused. A
  function cannot be encoded. \<^verbatim>\<open>Object.prototype\<close> is a plain object without enumerable
  keys and is encoded as the empty map.
\<close>

fun encode :: "object \<Rightarrow> js_error + (string \<times> fvalue) list" where
  "encode [] = Inr []"
| "encode ((k, v) # kvs) =
     (case v of
        JUndefined \<Rightarrow> Inl (FirestoreError ''Cannot use undefined as a Firestore value'')
      | JNull \<Rightarrow> (case encode kvs of Inl e \<Rightarrow> Inl e | Inr fs \<Rightarrow> Inr ((k, FNull) # fs))
      | JString s \<Rightarrow> (case encode kvs of Inl e \<Rightarrow> Inl e | Inr fs \<Rightarrow> Inr ((k, FString s) # fs))
      | JFunction f \<Rightarrow> Inl (FirestoreError ''Cannot encode value'')
      | JObjectPrototype \<Rightarrow>
          (case encode kvs of Inl e \<Rightarrow> Inl e | Inr fs \<Rightarrow> Inr ((k, FMap []) # fs)))"

text \<open>
  \<^verbatim>\<open>userRef.update({subscriptionData: subscriptionData}, {merge: true})\<close> (lines 384-386), for
  the document at the given path. \<^verbatim>\<open>DocumentReference.update\<close> takes the fields to write and,
  as its second argument, a precondition that replaces the default one (the document
  exists). \<^verbatim>\<open>{merge: true}\<close> is an option of \<^verbatim>\<open>set\<close>; as a precondition it names no condition,
  so the write is sent without one: it sets each field named by a key of its argument to the
  given value, leaving the document's other fields as they are, and creates the document
  when there is none. The argument here has the single key \<^verbatim>\<open>subscriptionData\<close>, so that
  field's value becomes the given map.
\<close>

definition update :: "firestore \<Rightarrow> string \<Rightarrow> object \<Rightarrow> js_error + firestore" where
  "update db path subscriptionData =
     (case encode subscriptionData of
        Inl e \<Rightarrow> Inl e
      | Inr fs \<Rightarrow>
          Inr (db(path \<mapsto>
                 (case db path of None \<Rightarrow> Map.empty | Some d \<Rightarrow> d)
                   (''subscriptionData'' \<mapsto> FMap fs))))"

section \<open>The world: store and call trace\<close>

text \<open>
  The calls a handler makes to its two collaborators, in the order made. \<open>DocUpdate u d\<close> is
  the call \<^verbatim>\<open>update({subscriptionData: d}, ...)\<close> on the reference that
  \<^verbatim>\<open>db.collection('families').doc(u)\<close> returned.
\<close>

datatype call =
    CustomersList "string option"
  | SubscriptionsList string
  | SubscriptionsRetrieve string
  | CustomersRetrieve string
  | SubscriptionsCancel string
  | DocUpdate string object

record world =
  store :: firestore
  calls :: "call list"

definition called :: "call \<Rightarrow> world \<Rightarrow> world" where
  "called c w = w\<lparr>calls := calls w @ [c]\<rparr>"

text \<open>
  \<^verbatim>\<open>updateUserSubscription\<close> (lines 376-393): nothing is done for a falsy user id; whatever
  \<^verbatim>\<open>doc\<close> or \<^verbatim>\<open>update\<close> throws is caught and logged, and the function returns normally
  either way.
\<close>

definition updateUserSubscription :: "string option \<Rightarrow> object \<Rightarrow> world \<Rightarrow> world" where
  "updateUserSubscription userId subscriptionData w =
     (case userId of
        None \<Rightarrow> w
      | Some u \<Rightarrow>
          if u = [] then w
          else
            (case doc u of
               Inl error \<Rightarrow> w
             | Inr userRef \<Rightarrow>
                 let w1 = called (DocUpdate u subscriptionData) w
                 in (case update (store w1) userRef subscriptionData of
                       Inl error \<Rightarrow> w1
                     | Inr db \<Rightarrow> w1\<lparr>store := db\<rparr>)))"

section \<open>The payment provider\<close>

record session =
  session_id :: string
  session_subscription :: "string option"
  session_customer :: "string option"
  session_metadata :: "metadata option"

record invoice =
  invoice_subscription :: "string option"

text \<open>
  A verified webhook event: \<^verbatim>\<open>event.type\<close> with the object of \<^verbatim>\<open>event.data.object\<close>.
\<close>

datatype event =
    CheckoutSessionCompleted session
  | InvoicePaymentSucceeded invoice
  | CustomerSubscriptionUpdated subscription
  | CustomerSubscriptionDeleted subscription
  | InvoicePaymentFailed invoice
  | OtherEvent string

text \<open>
  The provider as the handlers see it: what each call of the Stripe client returns or
  throws. \<open>constructEvent\<close> is \<^verbatim>\<open>stripe.webhooks.constructEvent\<close> applied to the raw body
  and the \<^verbatim>\<open>stripe-signature\<close> header under the configured secret; it throws when the
  signature does not verify. \<open>subscriptions_list\<close> is the listing of a customer's
  subscriptions with \<^verbatim>\<open>status: 'active', limit: 1\<close>, and \<open>customers_list\<close> the listing by
  email with \<^verbatim>\<open>limit: 1\<close>.
\<close>

record provider =
  constructEvent :: "string \<Rightarrow> string option \<Rightarrow> js_error + event"
  customers_list :: "string option \<Rightarrow> js_error + customer list"
  subscriptions_list :: "string \<Rightarrow> js_error + subscription list"
  subscriptions_retrieve :: "string \<Rightarrow> js_error + subscription"
  customers_retrieve :: "string \<Rightarrow> js_error + customer"
  subscriptions_cancel :: "string \<Rightarrow> js_error + subscription"

section \<open>Responses\<close>

record summary =
  sum_id :: string
  sum_status :: string
  sum_customer :: string
  sum_plan :: string
  sum_current_period_end :: jsval

datatype body =
    HasValidPayment bool
  | Subscription "summary option"
  | Received
  | Success subscription
  | ErrorBody string "string option"
  | Send string

record response =
  status :: nat
  body :: body

definition json :: "body \<Rightarrow> response" where
  "json b = \<lparr>status = 200, body = b\<rparr>"

section \<open>Request handlers\<close>

subsection \<open>\<^verbatim>\<open>POST /verify-payment\<close> (lines 77-128)\<close>

text \<open>\<^verbatim>\<open>x < now\<close> for a period end that may be \<^verbatim>\<open>undefined\<close>: the comparison is then false.\<close>

fun before :: "int option \<Rightarrow> int \<Rightarrow> bool" where
  "before None now = False"
| "before (Some e) now = (e < now)"

text \<open>\<open>date_now\<close> is \<^verbatim>\<open>Date.now()\<close>, in milliseconds.\<close>

definition verify_payment :: "provider \<Rightarrow> int \<Rightarrow> string option \<Rightarrow> world \<Rightarrow> response \<times> world" where
  "verify_payment stripe date_now email w =
     (if falsy email then (\<lparr>status = 400, body = ErrorBody ''Email is required'' None\<rparr>, w)
      else
        let w1 = called (CustomersList email) w
        in (case customers_list stripe email of
              Inl error \<Rightarrow>
                (\<lparr>status = 500,
                  body = ErrorBody ''Failed to verify payment'' (Some (message error))\<rparr>, w1)
            | Inr [] \<Rightarrow> (json (HasValidPayment False), w1)
            | Inr (customer # _) \<Rightarrow>
                let w2 = called (SubscriptionsList (cust_id customer)) w1
                in (case subscriptions_list stripe (cust_id customer) of
                      Inl error \<Rightarrow>
                        (\<lparr>status = 500,
                          body = ErrorBody ''Failed to verify payment'' (Some (message error))\<rparr>, w2)
                    | Inr [] \<Rightarrow> (json (HasValidPayment False), w2)
                    | Inr (subscription # _) \<Rightarrow>
                        let now = date_now div 1000
                        in if before (sub_current_period_end subscription) now
                           then (json (HasValidPayment False), w2)
                           else (json (HasValidPayment True), w2))))"

subsection \<open>\<^verbatim>\<open>POST /restore-subscription\<close> (lines 131-193)\<close>

text \<open>
  \<^verbatim>\<open>subscription.items.data[0].price.recurring.interval\<close>: a TypeError when the subscription
  has no items.
\<close>

definition first_interval :: "item list option \<Rightarrow> js_error + string" where
  "first_interval items =
     (case items of
        None \<Rightarrow> Inl (TypeError ''Cannot read properties of undefined (reading 'data')'')
      | Some [] \<Rightarrow> Inl (TypeError ''Cannot read properties of undefined (reading 'price')'')
      | Some (i # _) \<Rightarrow> Inr (item_interval i))"

definition restore_subscription ::
  "provider \<Rightarrow> string option \<Rightarrow> string option \<Rightarrow> world \<Rightarrow> response \<times> world" where
  "restore_subscription stripe userId email w =
     (let w1 = called (CustomersList email) w
      in (case customers_list stripe email of
            Inl error \<Rightarrow>
              (\<lparr>status = 500,
                body = ErrorBody ''Failed to check subscription'' (Some (message error))\<rparr>, w1)
          | Inr [] \<Rightarrow> (json (Subscription None), w1)
          | Inr (customer # _) \<Rightarrow>
              let w2 = called (SubscriptionsList (cust_id customer)) w1
              in (case subscriptions_list stripe (cust_id customer) of
                    Inl error \<Rightarrow>
                      (\<lparr>status = 500,
                        body = ErrorBody ''Failed to check subscription'' (Some (message error))\<rparr>, w2)
                  | Inr [] \<Rightarrow> (json (Subscription None), w2)
                  | Inr (subscription # _) \<Rightarrow>
                      (case first_interval (sub_items subscription) of
                         Inl error \<Rightarrow>
                           (\<lparr>status = 500,
                             body = ErrorBody ''Failed to check subscription''
                                      (Some (message error))\<rparr>, w2)
                       | Inr plan \<Rightarrow>
                           (case subscriptionEndDate (sub_items subscription) of
                              Inl error \<Rightarrow>
                                (\<lparr>status = 500,
                                  body = ErrorBody ''Failed to check subscription''
                                           (Some (message error))\<rparr>, w2)
                            | Inr d \<Rightarrow>
                                (json (Subscription (Some
                                   \<lparr>sum_id = sub_id subscription,
                                    sum_status = sub_status subscription,
                                    sum_customer = cust_id customer,
                                    sum_plan = (if plan = ''year'' then ''yearly'' else ''monthly''),
                                    sum_current_period_end = d\<rparr>)), w2))))))"

subsection \<open>\<^verbatim>\<open>POST /webhook\<close> (lines 196-349)\<close>

text \<open>
  The own properties of the object literal \<^verbatim>\<open>statusMap\<close> of the
  customer.subscription.updated case (lines 270-275); \<^verbatim>\<open>statusMap[s]\<close> is
  \<open>property statusMap s\<close>.
\<close>

definition statusMap :: "(string \<times> string) list" where
  "statusMap =
     [(''active'', ''active''),
      (''past_due'', ''expired''),
      (''canceled'', ''cancelled''),
      (''unpaid'', ''expired'')]"

text \<open>\<^verbatim>\<open>session.customer\<close>: the customer's id or \<^verbatim>\<open>null\<close>.\<close>

fun nullable :: "string option \<Rightarrow> jsval" where
  "nullable None = JNull"
| "nullable (Some s) = JString s"

text \<open>
  The \<^verbatim>\<open>switch (event.type)\<close> inside the second \<^verbatim>\<open>try\<close>: the result is the exception
  thrown, if any, with the world reached.
\<close>

fun handle :: "provider \<Rightarrow> event \<Rightarrow> world \<Rightarrow> js_error option \<times> world" where
  "handle stripe (CheckoutSessionCompleted session) w =
     (case session_subscription session of
        None \<Rightarrow> (None, w)
      | Some sid \<Rightarrow>
          (case session_metadata session of
             None \<Rightarrow> (None, w)
           | Some md \<Rightarrow>
               if sid \<noteq> [] \<and> md_userId md \<noteq> Some ''pending'' then
                 let w1 = called (SubscriptionsRetrieve sid) w
                 in (case subscriptions_retrieve stripe sid of
                       Inl error \<Rightarrow> (Some error, w1)
                     | Inr subscription \<Rightarrow>
                         (case subscriptionEndDate (sub_items subscription) of
                            Inl error \<Rightarrow> (Some error, w1)
                          | Inr d \<Rightarrow>
                              (None,
                               updateUserSubscription (md_userId md)
                                 [(''status'', JString ''active''),
                                  (''plan'', of_field (md_plan md)),
                                  (''customerId'', nullable (session_customer session)),
                                  (''subscriptionId'', JString sid),
                                  (''subscriptionEndDate'', d)] w1)))
               else (None, w)))"
| "handle stripe (InvoicePaymentSucceeded invoice) w =
     (case invoice_subscription invoice of
        None \<Rightarrow> (None, w)
      | Some sid \<Rightarrow>
          if sid \<noteq> [] then
            let w1 = called (SubscriptionsRetrieve sid) w
            in (case subscriptions_retrieve stripe sid of
                  Inl error \<Rightarrow> (Some error, w1)
                | Inr subscription \<Rightarrow>
                    let w2 = called (CustomersRetrieve (sub_customer subscription)) w1
                    in (case customers_retrieve stripe (sub_customer subscription) of
                          Inl error \<Rightarrow> (Some error, w2)
                        | Inr customer \<Rightarrow> (None, w2)))
          else (None, w))"
| "handle stripe (CustomerSubscriptionUpdated updatedSub) w =
     (case sub_metadata updatedSub of
        None \<Rightarrow> (None, w)
      | Some md \<Rightarrow>
          if \<not> falsy (md_userId md) \<and> md_userId md \<noteq> Some ''pending'' then
            (case subscriptionEndDate (sub_items updatedSub) of
               Inl error \<Rightarrow> (Some error, w)
             | Inr d \<Rightarrow>
                 (None,
                  updateUserSubscription (md_userId md)
                    [(''status'',
                      or_else (property statusMap (sub_status updatedSub)) (JString ''expired'')),
                     (''subscriptionEndDate'', d)] w))
          else (None, w))"
| "handle stripe (CustomerSubscriptionDeleted canceledSub) w =
     (case sub_metadata canceledSub of
        None \<Rightarrow> (None, w)
      | Some md \<Rightarrow>
          if \<not> falsy (md_userId md) then
            (None,
             updateUserSubscription (md_userId md)
               [(''status'', JString ''cancelled''), (''subscriptionEndDate'', JNull)] w)
          else (None, w))"
| "handle stripe (InvoicePaymentFailed failedInvoice) w =
     (case invoice_subscription failedInvoice of
        None \<Rightarrow> (None, w)
      | Some sid \<Rightarrow>
          if sid \<noteq> [] then
            let w1 = called (SubscriptionsRetrieve sid) w
            in (case subscriptions_retrieve stripe sid of
                  Inl error \<Rightarrow> (Some error, w1)
                | Inr subscription \<Rightarrow>
                    (case sub_metadata subscription of
                       None \<Rightarrow> (None, w1)
                     | Some md \<Rightarrow>
                         if \<not> falsy (md_userId md) then
                           (case subscriptionEndDate (sub_items subscription) of
                              Inl error \<Rightarrow> (Some error, w1)
                            | Inr d \<Rightarrow>
                                (None,
                                 updateUserSubscription (md_userId md)
                                   [(''status'', JString ''expired''),
                                    (''subscriptionEndDate'', d)] w1))
                         else (None, w1)))
          else (None, w))"
| "handle stripe (OtherEvent t) w = (None, w)"

text \<open>
  The endpoint: \<open>raw\<close> is the raw request body and \<open>sig\<close> the \<^verbatim>\<open>stripe-signature\<close> header.
\<close>

definition webhook :: "provider \<Rightarrow> string \<Rightarrow> string option \<Rightarrow> world \<Rightarrow> response \<times> world" where
  "webhook stripe raw sig w =
     (case constructEvent stripe raw sig of
        Inl err \<Rightarrow> (\<lparr>status = 400, body = Send (''Webhook Error: '' @ message err)\<rparr>, w)
      | Inr event \<Rightarrow>
          (case handle stripe event w of
             (None, w') \<Rightarrow> (json Received, w')
           | (Some error, w') \<Rightarrow>
               (\<lparr>status = 500, body = ErrorBody ''Webhook processing failed'' None\<rparr>, w')))"

subsection \<open>\<^verbatim>\<open>POST /cancel-subscription\<close> (lines 352-373)\<close>

definition cancel_subscription ::
  "provider \<Rightarrow> string option \<Rightarrow> string option \<Rightarrow> world \<Rightarrow> response \<times> world" where
  "cancel_subscription stripe userId subscriptionId w =
     (case subscriptionId of
        None \<Rightarrow> (\<lparr>status = 400, body = ErrorBody ''Missing userId or subscriptionId'' None\<rparr>, w)
      | Some sid \<Rightarrow>
          if falsy userId \<or> sid = [] then
            (\<lparr>status = 400, body = ErrorBody ''Missing userId or subscriptionId'' None\<rparr>, w)
          else
            let w1 = called (SubscriptionsCancel sid) w
            in (case subscriptions_cancel stripe sid of
                  Inl error \<Rightarrow>
                    (\<lparr>status = 500,
                      body = ErrorBody ''Failed to cancel subscription'' (Some (message error))\<rparr>,
                     w1)
                | Inr canceled \<Rightarrow>
                    (json (Success canceled),
                     updateUserSubscription userId
                       [(''status'', JString ''cancelled''), (''subscriptionEndDate'', JNull)] w1)))"

section \<open>Reading the store\<close>

text \<open>
  The \<^verbatim>\<open>subscriptionData\<close> of the document of \<open>u\<close>, and the value stored under its key \<open>k\<close>.
\<close>

definition stored_subscriptionData :: "firestore \<Rightarrow> string \<Rightarrow> fvalue option" where
  "stored_subscriptionData db u =
     (case db u of None \<Rightarrow> None | Some d \<Rightarrow> d ''subscriptionData'')"

definition stored_field :: "firestore \<Rightarrow> string \<Rightarrow> string \<Rightarrow> fvalue option" where
  "stored_field db u k =
     (case db u of
        None \<Rightarrow> None
      | Some d \<Rightarrow>
          (case d ''subscriptionData'' of Some (FMap fs) \<Rightarrow> map_of fs k | _ \<Rightarrow> None))"

section \<open>The specification's words\<close>

text \<open>
  ``Collect every subscription line item's period-end epoch, drop missing values, take the
  minimum if any remain, else null; convert a non-null value to ISO-8601, else store null.''
  \<open>spec_period_end_date\<close> follows these words, for comparison with \<open>subscriptionEndDate\<close>.
\<close>

definition present_period_ends :: "item list \<Rightarrow> int list" where
  "present_period_ends data =
     map the (filter (\<lambda>x. x \<noteq> None) (map item_current_period_end data))"

definition iso_of_epoch :: "int \<Rightarrow> js_error + jsval" where
  "iso_of_epoch e =
     (case toISOString (e * 1000) of Inl err \<Rightarrow> Inl err | Inr s \<Rightarrow> Inr (JString s))"

definition spec_period_end_date :: "item list \<Rightarrow> js_error + jsval" where
  "spec_period_end_date data =
     (let ends = present_period_ends data
      in if ends = [] then Inr JNull else iso_of_epoch (Min (set ends)))"


text \<open>An item whose period end is the epoch 0, with that period end removed.\<close>

definition zero_as_missing :: "item \<Rightarrow> item" where
  "zero_as_missing i =
     (if item_current_period_end i = Some 0 then i\<lparr>item_current_period_end := None\<rparr> else i)"

section \<open>Example objects\<close>

text \<open>
  A provider that cannot be reached and whose signature check rejects every payload, and the
  same provider delivering one verified event.
\<close>

definition offline :: provider where
  "offline =
     \<lparr>constructEvent = (\<lambda>raw sig. Inl (StripeError
        ''No signatures found matching the expected signature for payload'')),
      customers_list = (\<lambda>email. Inl (StripeError ''connection error'')),
      subscriptions_list = (\<lambda>c. Inl (StripeError ''connection error'')),
      subscriptions_retrieve = (\<lambda>s. Inl (StripeError ''connection error'')),
      customers_retrieve = (\<lambda>c. Inl (StripeError ''connection error'')),
      subscriptions_cancel = (\<lambda>s. Inl (StripeError ''connection error''))\<rparr>"

definition delivering :: "event \<Rightarrow> provider" where
  "delivering ev = offline\<lparr>constructEvent := (\<lambda>raw sig. Inr ev)\<rparr>"

text \<open>A provider whose two listings return the given customers and subscriptions.\<close>

definition listing :: "customer list \<Rightarrow> subscription list \<Rightarrow> provider" where
  "listing cs ss =
     offline\<lparr>customers_list := (\<lambda>email. Inr cs), subscriptions_list := (\<lambda>c. Inr ss)\<rparr>"

text \<open>A provider whose cancellation call succeeds with the given subscription.\<close>

definition cancelling :: "subscription \<Rightarrow> provider" where
  "cancelling canceled = offline\<lparr>subscriptions_cancel := (\<lambda>s. Inr canceled)\<rparr>"

definition example_item :: "int option \<Rightarrow> item" where
  "example_item e = \<lparr>item_current_period_end = e, item_interval = ''month''\<rparr>"

text \<open>The subscription \<^verbatim>\<open>sub_1\<close> of customer \<^verbatim>\<open>cus_1\<close>, with the given status, own period
  end, items and \<^verbatim>\<open>metadata.userId\<close>.\<close>

definition example_subscription ::
  "string \<Rightarrow> int option \<Rightarrow> item list option \<Rightarrow> string option \<Rightarrow> subscription" where
  "example_subscription st e items u =
     \<lparr>sub_id = ''sub_1'', sub_status = st, sub_customer = ''cus_1'',
      sub_current_period_end = e, sub_items = items,
      sub_metadata = Some \<lparr>md_userId = u, md_plan = Some ''monthly''\<rparr>\<rparr>"

text \<open>
  The provider delivering customer.subscription.deleted for \<^verbatim>\<open>sub_1\<close> of user \<^verbatim>\<open>u1\<close>, and the
  one delivering customer.subscription.updated for it with the given provider status and one
  line item ending at epoch 1700000000.
\<close>

definition deleted_u1 :: provider where
  "deleted_u1 =
     delivering (CustomerSubscriptionDeleted
       (example_subscription ''canceled'' None None (Some ''u1'')))"

definition updated_u1 :: "string \<Rightarrow> provider" where
  "updated_u1 st =
     delivering (CustomerSubscriptionUpdated
       (example_subscription st None (Some [example_item (Some 1700000000)]) (Some ''u1'')))"

text \<open>The deleted event for any user id, and the provider cancelling \<^verbatim>\<open>sub_1\<close>.\<close>

definition deleted_user :: "string \<Rightarrow> provider" where
  "deleted_user u =
     delivering (CustomerSubscriptionDeleted
       (example_subscription ''canceled'' None None (Some u)))"

definition cancelling_sub_1 :: provider where
  "cancelling_sub_1 = cancelling (example_subscription ''canceled'' None None (Some ''u1''))"

definition example_customer :: customer where
  "example_customer = \<lparr>cust_id = ''cus_1'', cust_email = Some ''ada@example.org''\<rparr>"

text \<open>A store with no document, and a store holding the family \<^verbatim>\<open>u1\<close> with an active
  monthly subscription.\<close>

definition empty_world :: world where
  "empty_world = \<lparr>store = Map.empty, calls = []\<rparr>"

definition example_document :: document where
  "example_document =
     [''familyName'' \<mapsto> FString ''Lovelace'',
      ''subscriptionData'' \<mapsto> FMap
         [(''status'', FString ''active''),
          (''plan'', FString ''monthly''),
          (''customerId'', FString ''cus_1''),
          (''subscriptionId'', FString ''sub_1''),
          (''subscriptionEndDate'', FString ''2023-11-14T22:13:20.000Z'')]]"

definition example_world :: world where
  "example_world = \<lparr>store = [''u1'' \<mapsto> example_document], calls = []\<rparr>"

section \<open>Auxiliary facts\<close>

lemma store_called [simp]: "store (called c w) = store w"
  by (simp add: called_def)

lemma calls_called [simp]: "calls (called c w) = calls w @ [c]"
  by (simp add: called_def)

lemma Math_min_Min: "xs \<noteq> [] \<Longrightarrow> Math_min xs = Min (set xs)"
proof (cases xs)
  case Nil
  assume "xs \<noteq> []"
  with Nil show ?thesis by simp
next
  case (Cons a list)
  then show ?thesis
    using Min.set_eq_fold [of a list] by simp
qed

lemma truthy_ends:
  "map the (filter Boolean xs) =
     filter (\<lambda>e. e \<noteq> 0) (map the (filter (\<lambda>x. x \<noteq> None) xs))"
  by (induction xs) auto

lemma Math_min_nonzero:
  assumes "xs \<noteq> []" and "0 \<notin> set xs"
  shows "Math_min xs \<noteq> 0"
proof -
  from assms(1) have "Min (set xs) \<in> set xs"
    by (intro Min_in) simp_all
  moreover from assms(1) have "Math_min xs = Min (set xs)"
    by (rule Math_min_Min)
  ultimately show ?thesis
    using assms(2) by metis
qed

lemma Boolean_zero_as_missing:
  "filter Boolean (map item_current_period_end (map zero_as_missing data))
     = filter Boolean (map item_current_period_end data)"
  by (induction data) (auto simp: zero_as_missing_def)

lemma iso_0: "toISOString 0 = Inr ''1970-01-01T00:00:00.000Z''"
  by code_simp

lemma iso_50: "toISOString 50000 = Inr ''1970-01-01T00:00:50.000Z''"
  by code_simp

lemma iso_100: "toISOString 100000 = Inr ''1970-01-01T00:01:40.000Z''"
  by code_simp

lemma iso_1700000000: "toISOString 1700000000000 = Inr ''2023-11-14T22:13:20.000Z''"
  by code_simp

lemma has_double_slash_no_slash: "CHR ''/'' \<notin> set cs \<Longrightarrow> \<not> has_double_slash cs"
  by (induction cs rule: has_double_slash.induct) auto

lemma segments_no_slash:
  "CHR ''/'' \<notin> set cs \<Longrightarrow> segments acc cs = (if acc @ cs = [] then [] else [acc @ cs])"
  by (induction cs arbitrary: acc) auto

lemma doc_id: "u \<noteq> [] \<Longrightarrow> CHR ''/'' \<notin> set u \<Longrightarrow> doc u = Inr u"
  by (simp add: doc_def has_double_slash_no_slash segments_no_slash)

lemma doc_u1: "doc ''u1'' = Inr ''u1''"
  by (simp add: doc_id)

lemma doc_a_b:
  "doc ''a/b'' = Inl (FirestoreError ''Your path does not contain an even number of components.'')"
  by (simp add: doc_def)

lemma calls_updateUserSubscription:
  "u \<noteq> [] \<Longrightarrow> doc u = Inr k \<Longrightarrow>
   calls (updateUserSubscription (Some u) d w) = calls w @ [DocUpdate u d]"
  by (simp add: updateUserSubscription_def Let_def split: sum.splits)

lemma store_updateUserSubscription:
  "u \<noteq> [] \<Longrightarrow> doc u = Inr k \<Longrightarrow> encode d = Inr fs \<Longrightarrow>
   store (updateUserSubscription (Some u) d w) =
     (store w)(k \<mapsto> (case store w k of None \<Rightarrow> Map.empty | Some dc \<Rightarrow> dc)
        (''subscriptionData'' \<mapsto> FMap fs))"
  by (simp add: updateUserSubscription_def update_def Let_def)

lemma updateUserSubscription_no_document:
  "doc u = Inl e \<Longrightarrow> updateUserSubscription (Some u) d w = w"
  by (simp add: updateUserSubscription_def)

lemma stored_field_upd:
  "stored_field (db(u \<mapsto> dc(''subscriptionData'' \<mapsto> FMap fs))) u k = map_of fs k"
  by (simp add: stored_field_def)

lemma stored_subscriptionData_upd:
  "stored_subscriptionData (db(u \<mapsto> dc(''subscriptionData'' \<mapsto> v))) u = Some v"
  by (simp add: stored_subscriptionData_def)


lemma example_end_date:
  "subscriptionEndDate (Some [example_item (Some 1700000000)]) =
     Inr (JString ''2023-11-14T22:13:20.000Z'')"
  by (simp add: subscriptionEndDate_def periodEnd_def example_item_def iso_1700000000)

lemma updateUserSubscription_twice:
  "store (updateUserSubscription userId d (updateUserSubscription userId d w)) =
     store (updateUserSubscription userId d w)"
  by (auto simp: updateUserSubscription_def update_def Let_def split: option.splits sum.splits)

lemma handle_deleted:
  "handle stripe (CustomerSubscriptionDeleted canceledSub) w =
     (None,
      case sub_metadata canceledSub of
        None \<Rightarrow> w
      | Some md \<Rightarrow>
          updateUserSubscription (md_userId md)
            [(''status'', JString ''cancelled''), (''subscriptionEndDate'', JNull)] w)"
  by (auto simp: updateUserSubscription_def split: option.splits)


section \<open>Properties of the period-end derivation\<close>

text \<open>
  C4, as the code has it. The derived period end is the minimum of the items' period ends
  that are present and not 0, converted by \<^verbatim>\<open>toISOString\<close> (which throws beyond the range of
  a Date), and \<^verbatim>\<open>null\<close> when no item has such a period end or the subscription has no item
  list. All four branches derive it by the same block, \<open>subscriptionEndDate\<close>.
\<close>

theorem period_end_is_min_of_nonzero_ends:
  "subscriptionEndDate None = Inr JNull \<and>
   subscriptionEndDate (Some data) =
     (let ends = filter (\<lambda>e. e \<noteq> 0) (present_period_ends data)
      in if ends = [] then Inr JNull else iso_of_epoch (Min (set ends)))"
proof -
  let ?ends = "filter (\<lambda>e. e \<noteq> 0) (present_period_ends data)"
  have none: "subscriptionEndDate None = Inr JNull"
    by (simp add: subscriptionEndDate_def periodEnd_def)
  have ends: "map the (filter Boolean (map item_current_period_end data)) = ?ends"
    by (simp add: truthy_ends present_period_ends_def)
  have some: "subscriptionEndDate (Some data) =
      (if ?ends = [] then Inr JNull else iso_of_epoch (Min (set ?ends)))"
  proof (cases "?ends = []")
    case True
    then show ?thesis
      by (simp add: subscriptionEndDate_def periodEnd_def ends)
  next
    case False
    then have data: "data \<noteq> []"
      by (auto simp: present_period_ends_def)
    have "0 \<notin> set ?ends" by simp
    with False have nz: "Math_min ?ends \<noteq> 0"
      by (rule Math_min_nonzero)
    from False data nz show ?thesis
      by (simp add: subscriptionEndDate_def periodEnd_def ends iso_of_epoch_def Math_min_Min)
  qed
  from none some show ?thesis by (simp add: Let_def)
qed

text \<open>
  The examples of the specification: period ends \<open>[100, 50, null]\<close> give epoch 50, and items
  without a period end give \<^verbatim>\<open>null\<close>.
\<close>

theorem period_end_is_min_of_nonzero_ends_witness:
  "subscriptionEndDate (Some [example_item (Some 100), example_item (Some 50), example_item None])
     = Inr (JString ''1970-01-01T00:00:50.000Z'') \<and>
   subscriptionEndDate (Some [example_item None, example_item None]) = Inr JNull"
  using
    period_end_is_min_of_nonzero_ends
      [of "[example_item (Some 100), example_item (Some 50), example_item None]"]
    period_end_is_min_of_nonzero_ends [of "[example_item None, example_item None]"]
  by (simp add: present_period_ends_def iso_of_epoch_def iso_50 example_item_def)

text \<open>
  C4 as stated fails: of the period ends \<open>[0, 100]\<close> both are present and their minimum is
  the epoch 0, but the code derives the date of epoch 100.
\<close>

theorem period_end_zero_counterexample:
  "subscriptionEndDate (Some [example_item (Some 0), example_item (Some 100)])
     = Inr (JString ''1970-01-01T00:01:40.000Z'') \<and>
   spec_period_end_date [example_item (Some 0), example_item (Some 100)]
     = Inr (JString ''1970-01-01T00:00:00.000Z'')"
  by (simp add: subscriptionEndDate_def periodEnd_def spec_period_end_date_def
      present_period_ends_def iso_of_epoch_def iso_0 iso_100 example_item_def)

text \<open>
  C10. A line item whose period end is the epoch 0 is treated as an item without a period
  end: removing every such period end changes nothing, and a subscription whose only item
  ends at epoch 0 derives \<^verbatim>\<open>null\<close>. The derivation is the one shared by all branches.
\<close>

theorem epoch_zero_is_missing:
  "subscriptionEndDate (Some (map zero_as_missing data)) = subscriptionEndDate (Some data) \<and>
   subscriptionEndDate (Some [i\<lparr>item_current_period_end := Some 0\<rparr>]) = Inr JNull"
  using Boolean_zero_as_missing [of data]
  by (simp add: subscriptionEndDate_def periodEnd_def)

theorem epoch_zero_is_missing_witness:
  "subscriptionEndDate (Some [example_item (Some 0)]) = Inr JNull \<and>
   subscriptionEndDate (Some [example_item (Some 0), example_item (Some 100)])
     = subscriptionEndDate (Some [example_item None, example_item (Some 100)])"
  using epoch_zero_is_missing [of "[example_item (Some 0), example_item (Some 100)]"
      "example_item None"]
  by (simp add: zero_as_missing_def example_item_def)

section \<open>Restore-subscription\<close>

text \<open>
  C9. Two restore-subscription requests with the same email, against the same provider and
  world, get the same response and leave the same world, whatever their user ids.
\<close>

theorem restore_ignores_userId:
  "restore_subscription stripe userId email w = restore_subscription stripe userId' email w"
  by (simp add: restore_subscription_def)

section \<open>Webhook signature\<close>

text \<open>
  C5. When the signature does not verify, the webhook endpoint answers 400 and returns the
  world as it was: no document is written and no call is made to the provider or the store.
\<close>

theorem webhook_bad_signature:
  "constructEvent stripe raw sig = Inl err \<Longrightarrow>
   webhook stripe raw sig w =
     (\<lparr>status = 400, body = Send (''Webhook Error: '' @ message err)\<rparr>, w)"
  by (simp add: webhook_def)

theorem webhook_bad_signature_witness:
  "webhook offline ''{}'' (Some ''t=1,v1=00'') example_world =
     (\<lparr>status = 400,
       body = Send ''Webhook Error: No signatures found matching the expected signature for payload''\<rparr>,
      example_world)"
proof -
  have h: "constructEvent offline ''{}'' (Some ''t=1,v1=00'') =
      Inl (StripeError ''No signatures found matching the expected signature for payload'')"
    by (simp add: offline_def)
  show ?thesis
    using webhook_bad_signature [OF h, of example_world] by simp
qed

section \<open>Verify-payment\<close>

text \<open>
  C6. verify-payment answers 400 when the request has no email. Otherwise, when the provider
  answers its listings, the result is \<^verbatim>\<open>{hasValidPayment: false}\<close> when no customer matches
  the email, when the customer has no active subscription, and when the subscription found
  has a \<^verbatim>\<open>current_period_end\<close> strictly before the current time (in whole seconds); in
  every other case it is \<^verbatim>\<open>{hasValidPayment: true}\<close>.
\<close>

theorem verify_payment_result:
  "(falsy email \<longrightarrow>
      fst (verify_payment stripe date_now email w) =
        \<lparr>status = 400, body = ErrorBody ''Email is required'' None\<rparr>) \<and>
   (\<not> falsy email \<and> customers_list stripe email = Inr [] \<longrightarrow>
      fst (verify_payment stripe date_now email w) = json (HasValidPayment False)) \<and>
   (\<not> falsy email \<and> customers_list stripe email = Inr (customer # cs) \<and>
    subscriptions_list stripe (cust_id customer) = Inr [] \<longrightarrow>
      fst (verify_payment stripe date_now email w) = json (HasValidPayment False)) \<and>
   (\<not> falsy email \<and> customers_list stripe email = Inr (customer # cs) \<and>
    subscriptions_list stripe (cust_id customer) = Inr (subscription # ss) \<and>
    sub_current_period_end subscription = Some e \<and> e < date_now div 1000 \<longrightarrow>
      fst (verify_payment stripe date_now email w) = json (HasValidPayment False)) \<and>
   (\<not> falsy email \<and> customers_list stripe email = Inr (customer # cs) \<and>
    subscriptions_list stripe (cust_id customer) = Inr (subscription # ss) \<and>
    (sub_current_period_end subscription = None \<or>
     sub_current_period_end subscription = Some e \<and> date_now div 1000 \<le> e) \<longrightarrow>
      fst (verify_payment stripe date_now email w) = json (HasValidPayment True))"
  by (auto simp: verify_payment_def Let_def)

text \<open>One request for each of the five cases, at the time 1700000000 s.\<close>

theorem verify_payment_result_witness:
  "fst (verify_payment offline 1700000000000 (Some []) empty_world) =
     \<lparr>status = 400, body = ErrorBody ''Email is required'' None\<rparr> \<and>
   fst (verify_payment (listing [] []) 1700000000000 (Some ''ada@example.org'') empty_world) =
     json (HasValidPayment False) \<and>
   fst (verify_payment (listing [example_customer] []) 1700000000000
          (Some ''ada@example.org'') empty_world) = json (HasValidPayment False) \<and>
   fst (verify_payment
          (listing [example_customer] [example_subscription ''active'' (Some 1699999999) None None])
          1700000000000 (Some ''ada@example.org'') empty_world) = json (HasValidPayment False) \<and>
   fst (verify_payment
          (listing [example_customer] [example_subscription ''active'' (Some 1700000000) None None])
          1700000000000 (Some ''ada@example.org'') empty_world) = json (HasValidPayment True)"
  using
    verify_payment_result [where email = "Some []" and stripe = offline
      and date_now = 1700000000000 and w = empty_world]
    verify_payment_result [where email = "Some ''ada@example.org''" and stripe = "listing [] []"
      and date_now = 1700000000000 and w = empty_world]
    verify_payment_result [where email = "Some ''ada@example.org''"
      and stripe = "listing [example_customer] []" and customer = example_customer and cs = "[]"
      and date_now = 1700000000000 and w = empty_world]
    verify_payment_result [where email = "Some ''ada@example.org''"
      and stripe = "listing [example_customer]
        [example_subscription ''active'' (Some 1699999999) None None]"
      and customer = example_customer and cs = "[]"
      and subscription = "example_subscription ''active'' (Some 1699999999) None None"
      and ss = "[]" and e = 1699999999
      and date_now = 1700000000000 and w = empty_world]
    verify_payment_result [where email = "Some ''ada@example.org''"
      and stripe = "listing [example_customer]
        [example_subscription ''active'' (Some 1700000000) None None]"
      and customer = example_customer and cs = "[]"
      and subscription = "example_subscription ''active'' (Some 1700000000) None None"
      and ss = "[]" and e = 1700000000
      and date_now = 1700000000000 and w = empty_world]
  by (simp add: listing_def offline_def example_subscription_def example_customer_def)

section \<open>Webhook: subscription updated\<close>




section \<open>Cancel-subscription\<close>

text \<open>
  C7, as the code has it. For a request with both userId and subscriptionId: when the
  provider's cancellation fails, the answer is 500 with the failure's message, the store is
  unchanged and no write is attempted; when it succeeds, the answer is the success body.
  Where the user id names a document of the collection, as every id without \<^verbatim>\<open>/\<close> does, the
  write of \<^verbatim>\<open>{status: cancelled, subscriptionEndDate: null}\<close> to that document has been made
  before the answer, and its stored status is then \<^verbatim>\<open>cancelled\<close> and its stored end date
  \<^verbatim>\<open>null\<close>. Where it names none, \<^verbatim>\<open>doc\<close> throws, the failure is swallowed, and the store is
  unchanged.
\<close>

theorem cancel_subscription_outcomes:
  assumes "u \<noteq> []" and "sid \<noteq> []"
  shows "(subscriptions_cancel stripe sid = Inl error \<longrightarrow>
      fst (cancel_subscription stripe (Some u) (Some sid) w) =
        \<lparr>status = 500,
         body = ErrorBody ''Failed to cancel subscription'' (Some (message error))\<rparr> \<and>
      store (snd (cancel_subscription stripe (Some u) (Some sid) w)) = store w \<and>
      calls (snd (cancel_subscription stripe (Some u) (Some sid) w)) =
        calls w @ [SubscriptionsCancel sid]) \<and>
    (subscriptions_cancel stripe sid = Inr canceled \<longrightarrow>
      fst (cancel_subscription stripe (Some u) (Some sid) w) = json (Success canceled) \<and>
      (doc u = Inr k \<longrightarrow>
         calls (snd (cancel_subscription stripe (Some u) (Some sid) w)) =
           calls w @ [SubscriptionsCancel sid,
             DocUpdate u [(''status'', JString ''cancelled''), (''subscriptionEndDate'', JNull)]] \<and>
         stored_field (store (snd (cancel_subscription stripe (Some u) (Some sid) w))) k
           ''status'' = Some (FString ''cancelled'') \<and>
         stored_field (store (snd (cancel_subscription stripe (Some u) (Some sid) w))) k
           ''subscriptionEndDate'' = Some FNull) \<and>
      (CHR ''/'' \<notin> set u \<longrightarrow>
         stored_field (store (snd (cancel_subscription stripe (Some u) (Some sid) w))) u
           ''status'' = Some (FString ''cancelled'') \<and>
         stored_field (store (snd (cancel_subscription stripe (Some u) (Some sid) w))) u
           ''subscriptionEndDate'' = Some FNull) \<and>
      (doc u = Inl e \<longrightarrow>
         store (snd (cancel_subscription stripe (Some u) (Some sid) w)) = store w \<and>
         calls (snd (cancel_subscription stripe (Some u) (Some sid) w)) =
           calls w @ [SubscriptionsCancel sid]))"
proof -
  let ?delta = "[(''status'', JString ''cancelled''), (''subscriptionEndDate'', JNull)]"
  let ?w1 = "called (SubscriptionsCancel sid) w"
  have enc: "encode ?delta =
      Inr [(''status'', FString ''cancelled''), (''subscriptionEndDate'', FNull)]"
    by simp
  have failure: "cancel_subscription stripe (Some u) (Some sid) w =
      (\<lparr>status = 500,
        body = ErrorBody ''Failed to cancel subscription'' (Some (message error))\<rparr>, ?w1)"
    if "subscriptions_cancel stripe sid = Inl error"
    using assms that by (simp add: cancel_subscription_def)
  have success: "cancel_subscription stripe (Some u) (Some sid) w =
      (json (Success canceled), updateUserSubscription (Some u) ?delta ?w1)"
    if "subscriptions_cancel stripe sid = Inr canceled"
    using assms that by (simp add: cancel_subscription_def)
  have calls: "calls (updateUserSubscription (Some u) ?delta ?w1) =
      calls w @ [SubscriptionsCancel sid, DocUpdate u ?delta]" if "doc u = Inr k" for k
    using calls_updateUserSubscription [OF assms(1) that, of ?delta ?w1] by simp
  have stored: "stored_field (store (updateUserSubscription (Some u) ?delta ?w1)) k ''status''
        = Some (FString ''cancelled'') \<and>
      stored_field (store (updateUserSubscription (Some u) ?delta ?w1)) k ''subscriptionEndDate''
        = Some FNull" if "doc u = Inr k" for k
    using store_updateUserSubscription [OF assms(1) that enc, of ?w1]
    by (simp add: stored_field_upd)
  have named: "doc u = Inr u" if "CHR ''/'' \<notin> set u"
    using assms(1) that by (rule doc_id)
  have unnamed: "updateUserSubscription (Some u) ?delta ?w1 = ?w1" if "doc u = Inl e"
    using that by (rule updateUserSubscription_no_document)
  have a: ?thesis if "subscriptions_cancel stripe sid = Inl error"
    using that failure by simp
  have b: ?thesis if c: "subscriptions_cancel stripe sid = Inr canceled"
    using calls stored stored [OF named] unnamed by (auto simp: success [OF c] c)
  have c: ?thesis
    if "subscriptions_cancel stripe sid \<noteq> Inl error"
      "subscriptions_cancel stripe sid \<noteq> Inr canceled"
    using that by simp
  from a b c show ?thesis
    by blast
qed

text \<open>
  A failing cancellation; a successful one for the user \<^verbatim>\<open>u1\<close>, with and without a document
  beforehand; and a successful one for the user id \<^verbatim>\<open>a/b\<close>, which names no document.
\<close>

theorem cancel_subscription_outcomes_witness:
  "fst (cancel_subscription offline (Some ''u1'') (Some ''sub_1'') example_world) =
     \<lparr>status = 500,
      body = ErrorBody ''Failed to cancel subscription'' (Some ''connection error'')\<rparr> \<and>
   store (snd (cancel_subscription offline (Some ''u1'') (Some ''sub_1'') example_world)) =
     store example_world \<and>
   fst (cancel_subscription cancelling_sub_1 (Some ''u1'') (Some ''sub_1'') example_world) =
     json (Success (example_subscription ''canceled'' None None (Some ''u1''))) \<and>
   stored_field
     (store (snd (cancel_subscription cancelling_sub_1 (Some ''u1'') (Some ''sub_1'') example_world)))
     ''u1'' ''status'' = Some (FString ''cancelled'') \<and>
   stored_field
     (store (snd (cancel_subscription cancelling_sub_1 (Some ''u1'') (Some ''sub_1'') example_world)))
     ''u1'' ''subscriptionEndDate'' = Some FNull \<and>
   stored_field
     (store (snd (cancel_subscription cancelling_sub_1 (Some ''u1'') (Some ''sub_1'') empty_world)))
     ''u1'' ''status'' = Some (FString ''cancelled'') \<and>
   store (snd (cancel_subscription cancelling_sub_1 (Some ''a/b'') (Some ''sub_1'') example_world)) =
     store example_world"
proof -
  have u: "''u1'' \<noteq> []" and ab: "''a/b'' \<noteq> []" and sid: "''sub_1'' \<noteq> []"
    by simp_all
  show ?thesis
    using
      cancel_subscription_outcomes [OF u sid, where stripe = offline and w = example_world
        and error = "StripeError ''connection error''"]
      cancel_subscription_outcomes [OF u sid, where stripe = cancelling_sub_1
        and w = example_world and k = "''u1''"
        and canceled = "example_subscription ''canceled'' None None (Some ''u1'')"]
      cancel_subscription_outcomes [OF u sid, where stripe = cancelling_sub_1
        and w = empty_world and k = "''u1''"
        and canceled = "example_subscription ''canceled'' None None (Some ''u1'')"]
      cancel_subscription_outcomes [OF ab sid, where stripe = cancelling_sub_1
        and w = example_world
        and canceled = "example_subscription ''canceled'' None None (Some ''u1'')"
        and e = "FirestoreError ''Your path does not contain an even number of components.''"]
    by (simp add: offline_def cancelling_sub_1_def cancelling_def doc_u1 doc_a_b)
qed

text \<open>
  C7 as stated fails: for the user id \<^verbatim>\<open>a/b\<close>, which is present, the cancellation succeeds
  and the answer reports success, but \<^verbatim>\<open>doc\<close> throws, no write is made, and no record with
  status \<^verbatim>\<open>cancelled\<close> is stored.
\<close>

theorem cancel_subscription_no_document_counterexample:
  "fst (cancel_subscription cancelling_sub_1 (Some ''a/b'') (Some ''sub_1'') example_world) =
     json (Success (example_subscription ''canceled'' None None (Some ''u1''))) \<and>
   calls (snd (cancel_subscription cancelling_sub_1 (Some ''a/b'') (Some ''sub_1'') example_world)) =
     [SubscriptionsCancel ''sub_1''] \<and>
   store (snd (cancel_subscription cancelling_sub_1 (Some ''a/b'') (Some ''sub_1'') example_world)) =
     store example_world \<and>
   stored_field
     (store (snd (cancel_subscription cancelling_sub_1 (Some ''a/b'') (Some ''sub_1'') example_world)))
     ''a/b'' ''status'' = None"
  by (simp add: cancel_subscription_def cancelling_sub_1_def cancelling_def offline_def
      example_world_def updateUserSubscription_def doc_a_b stored_field_def)

section \<open>Webhook: subscription deleted\<close>

text \<open>
  C8, as the code has it. For every world and every verified customer.subscription.deleted
  event, delivering the event twice leaves the same store as delivering it once. When
  \<^verbatim>\<open>metadata.userId\<close> is present and names a document of the collection, as every id without
  \<^verbatim>\<open>/\<close> does, the \<^verbatim>\<open>subscriptionData\<close> stored for it is then
  \<^verbatim>\<open>{status: cancelled, subscriptionEndDate: null}\<close>; when it names none, the store stays as it
  was.
\<close>

theorem subscription_deleted_idempotent:
  assumes ev: "constructEvent stripe raw sig = Inr (CustomerSubscriptionDeleted canceledSub)"
  shows "store (snd (webhook stripe raw sig (snd (webhook stripe raw sig w)))) =
      store (snd (webhook stripe raw sig w)) \<and>
    (sub_metadata canceledSub = Some md \<and> md_userId md = Some u \<and> u \<noteq> [] \<longrightarrow>
       (doc u = Inr k \<longrightarrow>
          stored_subscriptionData (store (snd (webhook stripe raw sig w))) k =
            Some (FMap [(''status'', FString ''cancelled''), (''subscriptionEndDate'', FNull)])) \<and>
       (CHR ''/'' \<notin> set u \<longrightarrow>
          stored_subscriptionData (store (snd (webhook stripe raw sig w))) u =
            Some (FMap [(''status'', FString ''cancelled''), (''subscriptionEndDate'', FNull)])) \<and>
       (doc u = Inl e \<longrightarrow> store (snd (webhook stripe raw sig w)) = store w))"
proof -
  let ?delta = "[(''status'', JString ''cancelled''), (''subscriptionEndDate'', JNull)]"
  let ?stored = "FMap [(''status'', FString ''cancelled''), (''subscriptionEndDate'', FNull)]"
  have once: "snd (webhook stripe raw sig w) =
      (case sub_metadata canceledSub of
         None \<Rightarrow> w
       | Some md \<Rightarrow> updateUserSubscription (md_userId md) ?delta w)" for w
    using ev by (simp add: webhook_def handle_deleted del: handle.simps)
  have twice: "store (snd (webhook stripe raw sig (snd (webhook stripe raw sig w)))) =
      store (snd (webhook stripe raw sig w))"
    by (simp add: once updateUserSubscription_twice split: option.splits)
  have enc: "encode ?delta =
      Inr [(''status'', FString ''cancelled''), (''subscriptionEndDate'', FNull)]"
    by simp
  have stored: "stored_subscriptionData (store (snd (webhook stripe raw sig w))) k = Some ?stored"
    if "sub_metadata canceledSub = Some md" "md_userId md = Some u" "u \<noteq> []" "doc u = Inr k"
    for k
    using store_updateUserSubscription [OF that(3,4) enc, of w] that(1,2)
    by (simp add: once stored_subscriptionData_upd)
  have named: "stored_subscriptionData (store (snd (webhook stripe raw sig w))) u = Some ?stored"
    if "sub_metadata canceledSub = Some md" "md_userId md = Some u" "u \<noteq> []"
      "CHR ''/'' \<notin> set u"
    using stored [OF that(1-3) doc_id [OF that(3,4)]] .
  have unnamed: "store (snd (webhook stripe raw sig w)) = store w"
    if "sub_metadata canceledSub = Some md" "md_userId md = Some u" "doc u = Inl e"
    using updateUserSubscription_no_document [OF that(3), of ?delta w] that(1,2)
    by (simp add: once)
  from twice stored named unnamed show ?thesis
    by blast
qed

text \<open>
  The event for the user \<^verbatim>\<open>u1\<close>, with and without a document beforehand, and for the user id
  \<^verbatim>\<open>a/b\<close>.
\<close>

theorem subscription_deleted_idempotent_witness:
  "store (snd (webhook deleted_u1 ''{}'' (Some ''t=1,v1=00'')
       (snd (webhook deleted_u1 ''{}'' (Some ''t=1,v1=00'') example_world)))) =
     store (snd (webhook deleted_u1 ''{}'' (Some ''t=1,v1=00'') example_world)) \<and>
   stored_subscriptionData
     (store (snd (webhook deleted_u1 ''{}'' (Some ''t=1,v1=00'') example_world))) ''u1'' =
     Some (FMap [(''status'', FString ''cancelled''), (''subscriptionEndDate'', FNull)]) \<and>
   stored_subscriptionData
     (store (snd (webhook deleted_u1 ''{}'' (Some ''t=1,v1=00'') empty_world))) ''u1'' =
     Some (FMap [(''status'', FString ''cancelled''), (''subscriptionEndDate'', FNull)]) \<and>
   store (snd (webhook (deleted_user ''a/b'') ''{}'' (Some ''t=1,v1=00'') example_world)) =
     store example_world"
proof -
  let ?sub = "\<lambda>u. example_subscription ''canceled'' None None (Some u)"
  have ev: "constructEvent (deleted_user u) ''{}'' (Some ''t=1,v1=00'') =
      Inr (CustomerSubscriptionDeleted (?sub u))" for u
    by (simp add: deleted_user_def delivering_def offline_def)
  have u1: "deleted_u1 = deleted_user ''u1''"
    by (simp add: deleted_u1_def deleted_user_def)
  show ?thesis
    unfolding u1
    using
      subscription_deleted_idempotent [OF ev, where w = example_world and u = "''u1''"
        and u1 = "''u1''" and k = "''u1''"
        and md = "\<lparr>md_userId = Some ''u1'', md_plan = Some ''monthly''\<rparr>"]
      subscription_deleted_idempotent [OF ev, where w = empty_world and u = "''u1''"
        and u1 = "''u1''" and k = "''u1''"
        and md = "\<lparr>md_userId = Some ''u1'', md_plan = Some ''monthly''\<rparr>"]
      subscription_deleted_idempotent [OF ev, where w = example_world and u = "''a/b''"
        and u1 = "''a/b''"
        and md = "\<lparr>md_userId = Some ''a/b'', md_plan = Some ''monthly''\<rparr>"
        and e = "FirestoreError ''Your path does not contain an even number of components.''"]
    by (simp add: example_subscription_def doc_u1 doc_a_b)
qed

text \<open>
  C8 as stated fails: for the event whose \<^verbatim>\<open>metadata.userId\<close> is \<^verbatim>\<open>a/b\<close>, which is present,
  both deliveries are acknowledged, \<^verbatim>\<open>doc\<close> throws each time, and after two deliveries no
  \<^verbatim>\<open>subscriptionData\<close> is stored for the user.
\<close>

theorem subscription_deleted_no_document_counterexample:
  "fst (webhook (deleted_user ''a/b'') ''{}'' (Some ''t=1,v1=00'') example_world) = json Received \<and>
   store (snd (webhook (deleted_user ''a/b'') ''{}'' (Some ''t=1,v1=00'')
       (snd (webhook (deleted_user ''a/b'') ''{}'' (Some ''t=1,v1=00'') example_world)))) =
     store example_world \<and>
   stored_subscriptionData
     (store (snd (webhook (deleted_user ''a/b'') ''{}'' (Some ''t=1,v1=00'')
        (snd (webhook (deleted_user ''a/b'') ''{}'' (Some ''t=1,v1=00'') example_world)))))
     ''a/b'' = None"
  by (simp add: webhook_def deleted_user_def delivering_def offline_def example_subscription_def
      example_world_def updateUserSubscription_def doc_a_b stored_subscriptionData_def)

section \<open>The invariant of cancelled records\<close>

text \<open>
  C1 at the input it names: a verified customer.subscription.updated event with provider
  status \<^verbatim>\<open>canceled\<close>, for the user \<^verbatim>\<open>u1\<close>, whose line item ends at epoch 1700000000. The
  handler writes, and the store then holds, the status \<^verbatim>\<open>cancelled\<close> together with a
  \<^verbatim>\<open>subscriptionEndDate\<close> that is not \<^verbatim>\<open>null\<close>.
\<close>

theorem subscription_updated_canceled_keeps_end_date:
  "calls (snd (webhook (updated_u1 ''canceled'') ''{}'' (Some ''t=1,v1=00'') example_world)) =
     [DocUpdate ''u1''
        [(''status'', JString ''cancelled''),
         (''subscriptionEndDate'', JString ''2023-11-14T22:13:20.000Z'')]] \<and>
   stored_field
     (store (snd (webhook (updated_u1 ''canceled'') ''{}'' (Some ''t=1,v1=00'') example_world)))
     ''u1'' ''status'' = Some (FString ''cancelled'') \<and>
   stored_field
     (store (snd (webhook (updated_u1 ''canceled'') ''{}'' (Some ''t=1,v1=00'') example_world)))
     ''u1'' ''subscriptionEndDate'' = Some (FString ''2023-11-14T22:13:20.000Z'')"
  by (simp add: webhook_def updated_u1_def delivering_def offline_def example_subscription_def
      example_world_def example_end_date statusMap_def property_def or_else_def doc_u1
      updateUserSubscription_def update_def stored_field_def called_def)

section \<open>Fields outside the written delta\<close>

text \<open>
  C2 at the input it names: the document of \<^verbatim>\<open>u1\<close> holds plan, customerId and
  subscriptionId; customer.subscription.deleted writes \<^verbatim>\<open>{status, subscriptionEndDate}\<close>.
  Afterwards the stored \<^verbatim>\<open>subscriptionData\<close> has the status \<^verbatim>\<open>cancelled\<close> and no longer has
  a plan, customerId or subscriptionId.
\<close>

theorem subscription_deleted_drops_stored_fields:
  "stored_field (store example_world) ''u1'' ''plan'' = Some (FString ''monthly'') \<and>
   stored_field (store example_world) ''u1'' ''customerId'' = Some (FString ''cus_1'') \<and>
   stored_field (store example_world) ''u1'' ''subscriptionId'' = Some (FString ''sub_1'') \<and>
   stored_field (store (snd (webhook deleted_u1 ''{}'' (Some ''t=1,v1=00'') example_world)))
     ''u1'' ''status'' = Some (FString ''cancelled'') \<and>
   stored_field (store (snd (webhook deleted_u1 ''{}'' (Some ''t=1,v1=00'') example_world)))
     ''u1'' ''plan'' = None \<and>
   stored_field (store (snd (webhook deleted_u1 ''{}'' (Some ''t=1,v1=00'') example_world)))
     ''u1'' ''customerId'' = None \<and>
   stored_field (store (snd (webhook deleted_u1 ''{}'' (Some ''t=1,v1=00'') example_world)))
     ''u1'' ''subscriptionId'' = None"
  by (simp add: webhook_def deleted_u1_def delivering_def offline_def example_subscription_def
      example_world_def doc_u1 updateUserSubscription_def update_def stored_field_def called_def
      example_document_def)

end
